theory Spec2Isabelle
  imports Complex_Main
begin

section \<open>Python strings\<close>

text \<open>
  A Python \<open>str\<close> is modelled as a \<open>string\<close> whose characters are the code points
  below 256. On these code points \<open>str.isspace\<close>, the regular expression classes
  \<open>\s\<close> and \<open>\d\<close> and \<open>str.lower\<close> are as defined below.
\<close>

definition digits :: string where
  "digits = ''0123456789''"

definition is_digit :: "char \<Rightarrow> bool" where
  "is_digit c = (c \<in> set digits)"

text \<open>
  The whitespace code points below 256: tab to carriage return, the four separators
  \<open>0x1C\<close> to \<open>0x1F\<close>, space, next line \<open>0x85\<close> and no-break space \<open>0xA0\<close>.
\<close>

definition whitespace :: string where
  "whitespace =
     [CHR 0x09, CHR 0x0A, CHR 0x0B, CHR 0x0C, CHR 0x0D, CHR 0x1C, CHR 0x1D, CHR 0x1E,
      CHR 0x1F, CHR 0x20, CHR 0x85, CHR 0xA0]"

definition is_space :: "char \<Rightarrow> bool" where
  "is_space c = (c \<in> set whitespace)"

text \<open>
  The upper-case code points below 256 and their lower-case forms, position by position:
  the letters A to Z, and \<open>0xC0\<close> to \<open>0xDE\<close> without the multiplication sign \<open>0xD7\<close>.
\<close>

definition upper_chars :: string where
  "upper_chars =
     ''ABCDEFGHIJKLMNOPQRSTUVWXYZ'' @
     [CHR 0xC0, CHR 0xC1, CHR 0xC2, CHR 0xC3, CHR 0xC4, CHR 0xC5, CHR 0xC6,
      CHR 0xC7, CHR 0xC8, CHR 0xC9, CHR 0xCA, CHR 0xCB, CHR 0xCC, CHR 0xCD,
      CHR 0xCE, CHR 0xCF, CHR 0xD0, CHR 0xD1, CHR 0xD2, CHR 0xD3, CHR 0xD4,
      CHR 0xD5, CHR 0xD6, CHR 0xD8, CHR 0xD9, CHR 0xDA, CHR 0xDB, CHR 0xDC,
      CHR 0xDD, CHR 0xDE]"

definition lower_chars :: string where
  "lower_chars =
     ''abcdefghijklmnopqrstuvwxyz'' @
     [CHR 0xE0, CHR 0xE1, CHR 0xE2, CHR 0xE3, CHR 0xE4, CHR 0xE5, CHR 0xE6,
      CHR 0xE7, CHR 0xE8, CHR 0xE9, CHR 0xEA, CHR 0xEB, CHR 0xEC, CHR 0xED,
      CHR 0xEE, CHR 0xEF, CHR 0xF0, CHR 0xF1, CHR 0xF2, CHR 0xF3, CHR 0xF4,
      CHR 0xF5, CHR 0xF6, CHR 0xF8, CHR 0xF9, CHR 0xFA, CHR 0xFB, CHR 0xFC,
      CHR 0xFD, CHR 0xFE]"

definition lower_char :: "char \<Rightarrow> char" where
  "lower_char c = (case map_of (zip upper_chars lower_chars) c of Some l \<Rightarrow> l | None \<Rightarrow> c)"

definition lower :: "string \<Rightarrow> string" where
  "lower s = map lower_char s"

text \<open>\<open>s.strip()\<close>: leading and trailing whitespace removed.\<close>

definition strip :: "string \<Rightarrow> string" where
  "strip s = rev (dropWhile is_space (rev (dropWhile is_space s)))"



subsection \<open>Decimal numerals: \<open>str(n)\<close> and \<open>int(s)\<close>\<close>

text \<open>Python integers are unbounded: \<open>int\<close>.\<close>

definition digit_char :: "int \<Rightarrow> char" where
  "digit_char d = digits ! nat d"

text \<open>The value of a digit is its position in \<open>digits\<close>.\<close>

definition digit_val :: "char \<Rightarrow> int" where
  "digit_val c = int (length (takeWhile (\<lambda>d. d \<noteq> c) digits))"

text \<open>The decimal digits of a non-negative integer, without leading zeros.\<close>

function dec_digits :: "int \<Rightarrow> string" where
  "dec_digits n =
     (if n < 10 then [digit_char n] else dec_digits (n div 10) @ [digit_char (n mod 10)])"
  by pat_completeness auto
termination
  by (relation "measure nat") auto

declare dec_digits.simps [simp del]

definition str_int :: "int \<Rightarrow> string" where
  "str_int i = (if i < 0 then CHR ''-'' # dec_digits (- i) else dec_digits i)"

text \<open>The number that a string of decimal digits denotes.\<close>

definition int_of_digits :: "string \<Rightarrow> int" where
  "int_of_digits s = foldl (\<lambda>acc c. 10 * acc + digit_val c) 0 s"

text \<open>
  CPython limits the conversion between \<open>int\<close> and decimal text: \<open>int(s)\<close> raises
  \<open>ValueError\<close> when \<open>s\<close> has more than \<open>sys.get_int_max_str_digits()\<close> digits (leading zeros
  count), and \<open>str(n)\<close> raises it when \<open>n\<close> has more than that many digits (the sign does
  not count). The limit is 4300 unless the interpreter is configured otherwise.
\<close>

definition max_str_digits :: nat where
  "max_str_digits = 4300"

subsection \<open>The regular expressions of the normalizers\<close>


text \<open>
  One match of \<open>\d+\.?\d*\<close> at the start of \<open>c # cs\<close>, where \<open>c\<close> is a digit: the
  greedy run of digits, then a dot when one follows, then the greedy (possibly empty) run of
  digits. Every part after the first run is optional, so the greedy choice never backtracks.
  The result is the matched text and the remaining input.
\<close>

definition match_decimal :: "char \<Rightarrow> string \<Rightarrow> string \<times> string" where
  "match_decimal c cs =
     (let ip = c # takeWhile is_digit cs; r1 = dropWhile is_digit cs
      in case r1 of
           [] \<Rightarrow> (ip, [])
         | d # r2 \<Rightarrow>
             if d = CHR ''.''
             then (ip @ [d] @ takeWhile is_digit r2, dropWhile is_digit r2)
             else (ip, r1))"

lemma length_match_decimal_rest: "length (snd (match_decimal c cs)) \<le> length cs"
proof -
  have a: "length (dropWhile is_digit cs) \<le> length cs"
    by (rule length_dropWhile_le)
  show ?thesis
  proof (cases "dropWhile is_digit cs")
    case Nil
    show ?thesis unfolding match_decimal_def Let_def Nil by simp
  next
    case (Cons d r2)
    have b: "length (dropWhile is_digit r2) \<le> length r2"
      by (rule length_dropWhile_le)
    have c: "length r2 < length cs"
      using a unfolding Cons by simp
    show ?thesis unfolding match_decimal_def Let_def Cons using b c by simp
  qed
qed

text \<open>\<open>re.findall(r'\d+\.?\d*', s)\<close>.\<close>

function findall_decimal :: "string \<Rightarrow> string list" where
  "findall_decimal [] = []"
| "findall_decimal (c # cs) =
     (if is_digit c
      then fst (match_decimal c cs) # findall_decimal (snd (match_decimal c cs))
      else findall_decimal cs)"
  by pat_completeness auto
termination
proof (relation "measure length")
  show "wf (measure length)" by simp
next
  fix c :: char and cs :: string
  assume "is_digit c"
  have "length (snd (match_decimal c cs)) \<le> length cs"
    by (rule length_match_decimal_rest)
  then show "(snd (match_decimal c cs), c # cs) \<in> measure length" by simp
next
  fix c :: char and cs :: string
  show "(cs, c # cs) \<in> measure length" by simp
qed


section \<open>Python values and exceptions\<close>

text \<open>
  The normalizers receive what \<open>json.loads\<close> decoded or what a stored JSON record holds:
  \<open>None\<close>, a bool, an int, a string, or another JSON value (a float, a list, a dict).
  The last kind is given by its truth value and its \<open>str()\<close> text; like \<open>None\<close>, bool and
  int it has no \<open>strip\<close> method.
\<close>

datatype pyval = PyNone | PyBool bool | PyInt int | PyStr string | PyOther bool string

datatype error = AttributeError | OverflowError | ValueError

fun truthy :: "pyval \<Rightarrow> bool" where
  "truthy PyNone = False"
| "truthy (PyBool b) = b"
| "truthy (PyInt i) = (i \<noteq> 0)"
| "truthy (PyStr s) = (s \<noteq> [])"
| "truthy (PyOther t s) = t"


definition py_str_int :: "int \<Rightarrow> error + string" where
  "py_str_int n =
     (if max_str_digits < length (dec_digits \<bar>n\<bar>) then Inl ValueError else Inr (str_int n))"

text \<open>\<open>str(v)\<close>: it raises only on an integer beyond the limit.\<close>

fun py_str :: "pyval \<Rightarrow> error + string" where
  "py_str PyNone = Inr ''None''"
| "py_str (PyBool b) = Inr (if b then ''True'' else ''False'')"
| "py_str (PyInt i) = py_str_int i"
| "py_str (PyStr s) = Inr s"
| "py_str (PyOther t s) = Inr s"

text \<open>The method call \<open>v.strip()\<close>: only a string has the attribute.\<close>

fun py_strip :: "pyval \<Rightarrow> error + string" where
  "py_strip (PyStr s) = Inr (strip s)"
| "py_strip v = Inl AttributeError"

section \<open>Python floats\<close>

text \<open>
  A float is an IEEE 754 binary64 number; only non-negative ones arise here. A finite float
  is given by its exact rational value. \<open>float(s)\<close> and \<open>+\<close> round the exact result to
  the nearest binary64 number, ties to the even significand, and overflow to infinity.
\<close>

datatype pyfloat = Finite rat | Infinity

definition pow2 :: "int \<Rightarrow> rat" where
  "pow2 e = (if 0 \<le> e then 2 ^ nat e else 1 / 2 ^ nat (- e))"

definition pow10 :: "int \<Rightarrow> rat" where
  "pow10 e = (if 0 \<le> e then 10 ^ nat e else 1 / 10 ^ nat (- e))"

text \<open>The number of binary digits and of decimal digits of a positive integer.\<close>

function bit_length :: "int \<Rightarrow> int" where
  "bit_length n = (if n \<le> 0 then 0 else 1 + bit_length (n div 2))"
  by pat_completeness auto
termination
  by (relation "measure nat") auto

declare bit_length.simps [simp del]

function num_digits :: "int \<Rightarrow> int" where
  "num_digits n = (if n \<le> 0 then 0 else 1 + num_digits (n div 10))"
  by pat_completeness auto
termination
  by (relation "measure nat") auto

declare num_digits.simps [simp del]

text \<open>For \<open>0 < q\<close>, \<open>ilog2 q\<close> is the \<open>e\<close> with \<open>2 ^ e \<le> q < 2 ^ (e + 1)\<close>.\<close>

definition ilog2 :: "rat \<Rightarrow> int" where
  "ilog2 q =
     (let (a, b) = quotient_of q;
          d = bit_length a - bit_length b
      in if pow2 d \<le> q then d else d - 1)"

definition round_half_even :: "rat \<Rightarrow> int" where
  "round_half_even q =
     (let f = \<lfloor>q\<rfloor>; r = q - of_int f
      in if r < 1 / 2 then f else if 1 / 2 < r then f + 1
         else if even f then f else f + 1)"

text \<open>
  Rounding a non-negative rational to binary64: the spacing of the floats around \<open>q\<close> is
  \<open>2 ^ (ilog2 q - 52)\<close>, and \<open>2 ^ (- 1074)\<close> in the subnormal range; a rounded value of
  \<open>2 ^ 1024\<close> or more is infinity.
\<close>

definition round_double :: "rat \<Rightarrow> pyfloat" where
  "round_double q =
     (if q \<le> 0 then Finite 0
      else let e = max (ilog2 q - 52) (- 1074);
               r = of_int (round_half_even (q / pow2 e)) * pow2 e
           in if pow2 1024 \<le> r then Infinity else Finite r)"

fun fadd :: "pyfloat \<Rightarrow> pyfloat \<Rightarrow> pyfloat" where
  "fadd (Finite a) (Finite b) = round_double (a + b)"
| "fadd x y = Infinity"

text \<open>
  \<open>float(s)\<close> for a run of digits, optionally followed by a dot and a (possibly empty) run
  of digits: the texts that \<open>\d+\.?\d*\<close> matches, and the only ones the code converts.
  For any other text the model answers \<open>ValueError\<close>.
\<close>

definition py_float :: "string \<Rightarrow> error + pyfloat" where
  "py_float s =
     (let ip = takeWhile is_digit s; r = dropWhile is_digit s
      in if ip = [] then Inl ValueError
         else case r of
           [] \<Rightarrow> Inr (round_double (of_int (int_of_digits ip)))
         | d # fp \<Rightarrow>
             if d = CHR ''.'' \<and> list_all is_digit fp
             then Inr (round_double (of_int (int_of_digits (ip @ fp)) / 10 ^ length fp))
             else Inl ValueError)"

text \<open>\<open>int(x)\<close> truncates; on infinity it raises \<open>OverflowError\<close>.\<close>

fun py_int_of_float :: "pyfloat \<Rightarrow> error + int" where
  "py_int_of_float (Finite q) = Inr \<lfloor>q\<rfloor>"
| "py_int_of_float Infinity = Inl OverflowError"

subsection \<open>\<open>str(x)\<close> of a float\<close>

text \<open>
  \<open>str\<close> of a float is its \<open>repr\<close>: the shortest string of decimal digits that
  \<open>float\<close> reads back as the same number (of the strings of that length, the closest to
  the number), written with an exponent when the decimal point position \<open>decpt\<close> (the number
  is \<open>0.d\<^sub>1d\<^sub>2\<dots> \<times> 10 ^ decpt\<close>) is at most \<open>- 4\<close> or above \<open>16\<close>.
\<close>

text \<open>For \<open>0 < q\<close>, \<open>decimal_point q\<close> is the \<open>d\<close> with \<open>10 ^ (d - 1) \<le> q < 10 ^ d\<close>.\<close>

definition decimal_point :: "rat \<Rightarrow> int" where
  "decimal_point q =
     (if 1 \<le> q then num_digits \<lfloor>q\<rfloor>
      else 1 - num_digits (\<lceil>1 / q\<rceil> - 1))"

text \<open>
  The candidates with \<open>k\<close> digits are the two \<open>k\<close>-digit decimals around \<open>q\<close>; the search
  goes from \<open>k\<close> up to 17 digits, where a binary64 number always reads back.
  The result is the digits as a number \<open>n\<close> and the number \<open>k\<close> of digits asked for.
\<close>

fun shortest_digits :: "nat \<Rightarrow> int \<Rightarrow> rat \<Rightarrow> int \<times> int" where
  "shortest_digits 0 k q = (round_half_even (q * pow10 (k - decimal_point q)), k)"
| "shortest_digits (Suc fuel) k q =
     (let sc = pow10 (k - decimal_point q);
          lo = \<lfloor>q * sc\<rfloor>; hi = lo + 1;
          ok_lo = (round_double (of_int lo / sc) = Finite q);
          ok_hi = (round_double (of_int hi / sc) = Finite q)
      in if ok_lo \<and> ok_hi
         then (if q - of_int lo / sc < of_int hi / sc - q then (lo, k)
               else if of_int hi / sc - q < q - of_int lo / sc then (hi, k)
               else if even lo then (lo, k) else (hi, k))
         else if ok_lo then (lo, k)
         else if ok_hi then (hi, k)
         else shortest_digits fuel (k + 1) q)"

definition strip_zeros :: "string \<Rightarrow> string" where
  "strip_zeros s = rev (dropWhile (\<lambda>c. c = CHR ''0'') (rev s))"

definition float_repr :: "rat \<Rightarrow> string" where
  "float_repr q =
     (if q = 0 then ''0.0''
      else let (n, k) = shortest_digits 16 1 q;
               ds = dec_digits n;
               decpt = decimal_point q + (int (length ds) - k);
               digits = strip_zeros ds;
               nd = int (length digits)
           in if decpt \<le> - 4 \<or> 16 < decpt
              then let x = decpt - 1;
                       ex = dec_digits \<bar>x\<bar>;
                       mant = (if nd = 1 then digits else hd digits # CHR ''.'' # tl digits)
                   in mant @ ''e'' @ (if x < 0 then ''-'' else ''+'')
                        @ (if length ex < 2 then CHR ''0'' # ex else ex)
              else if decpt \<le> 0
              then ''0.'' @ replicate (nat (- decpt)) CHR ''0'' @ digits
              else if nd \<le> decpt
              then digits @ replicate (nat (decpt - nd)) CHR ''0'' @ ''.0''
              else take (nat decpt) digits @ ''.'' @ drop (nat decpt) digits)"

fun py_str_float :: "pyfloat \<Rightarrow> string" where
  "py_str_float (Finite q) = float_repr q"
| "py_str_float Infinity = ''inf''"

section \<open>The field normalizers\<close>


definition normalize_rent_amount :: "pyval \<Rightarrow> error + string" where
  "normalize_rent_amount rent_value =
     (if \<not> truthy rent_value then Inr []
      else case py_str rent_value of
        Inl e \<Rightarrow> Inl e
      | Inr as_str \<Rightarrow>
          if strip as_str = [] then Inr []
          else let rent_str = strip as_str;
                   numbers = findall_decimal rent_str
               in (case numbers of [] \<Rightarrow> Inr [] | number # _ \<Rightarrow> Inr number))"

text \<open>
  The loop \<open>for num_str in numbers: try: total += float(num_str) except ValueError: continue\<close>,
  from \<open>total = 0\<close>.
\<close>

fun sum_floats :: "pyfloat \<Rightarrow> string list \<Rightarrow> pyfloat" where
  "sum_floats tot [] = tot"
| "sum_floats tot (num_str # rest) =
     (case py_float num_str of
        Inl e \<Rightarrow> sum_floats tot rest
      | Inr x \<Rightarrow> sum_floats (fadd tot x) rest)"

text \<open>
  \<open>if total == int(total): return str(int(total)) else: return str(total)\<close>; the call
  \<open>int(total)\<close> is outside every \<open>try\<close>. A finite float is below \<open>2 ^ 1024\<close>, so
  \<open>int(total)\<close> has at most 309 digits and \<open>str\<close> of it is within the limit.
\<close>

definition render_total :: "pyfloat \<Rightarrow> error + string" where
  "render_total tot =
     (case py_int_of_float tot of
        Inl e \<Rightarrow> Inl e
      | Inr i \<Rightarrow>
          if tot = Finite (of_int i) then Inr (str_int i) else Inr (py_str_float tot))"

definition normalize_maintenance_amount :: "pyval \<Rightarrow> error + string" where
  "normalize_maintenance_amount maintenance_value =
     (if \<not> truthy maintenance_value then Inr []
      else case py_str maintenance_value of
        Inl e \<Rightarrow> Inl e
      | Inr as_str \<Rightarrow>
          if strip as_str = [] then Inr []
          else let maintenance_str = strip as_str;
                   numbers = findall_decimal maintenance_str
               in if numbers = [] then Inr []
                  else render_total (sum_floats (Finite 0) numbers))"





text \<open>
  The normalization of \<open>rental_period_greater_than_lock_in_period\<close>, written inline in
  \<open>extract_information_with_gpt4o\<close> and again in \<open>dashboard\<close>: the \<open>isinstance\<close> chain.
\<close>

definition normalize_boolean_flag :: "pyval \<Rightarrow> error + string" where
  "normalize_boolean_flag rental_period_value =
     (case rental_period_value of
        PyBool b \<Rightarrow> Inr (if b then ''True'' else ''False'')
      | PyStr s \<Rightarrow>
          let v = strip s
          in if lower v \<in> set [''yes'', ''true'', ''1''] then Inr ''True''
             else if lower v \<in> set [''no'', ''false'', ''0''] then Inr ''False''
             else Inr ''False''
      | _ \<Rightarrow> Inr ''False'')"

section \<open>Dates\<close>

text \<open>
  A \<open>datetime.date\<close> is modelled by its proleptic Gregorian ordinal (\<open>date.toordinal()\<close>):
  day 1 is 0001-01-01 and the last date, 9999-12-31, is day 3652059. Dates compare as their
  ordinals do. The ordinal of a year, month and day is computed as \<open>datetime\<close> computes it.
\<close>

type_synonym date = int

definition max_ordinal :: int where
  "max_ordinal = 3652059"

definition is_leap :: "int \<Rightarrow> bool" where
  "is_leap y = (y mod 4 = 0 \<and> (y mod 100 \<noteq> 0 \<or> y mod 400 = 0))"

definition month_lengths :: "int list" where
  "month_lengths = [31, 28, 31, 30, 31, 30, 31, 31, 30, 31, 30, 31]"

definition days_in_month :: "int \<Rightarrow> int \<Rightarrow> int" where
  "days_in_month y m = (if m = 2 \<and> is_leap y then 29 else month_lengths ! nat (m - 1))"

definition days_before_year :: "int \<Rightarrow> int" where
  "days_before_year y = (y - 1) * 365 + (y - 1) div 4 - (y - 1) div 100 + (y - 1) div 400"

definition days_before_month :: "int \<Rightarrow> int \<Rightarrow> int" where
  "days_before_month y m =
     sum_list (take (nat (m - 1)) month_lengths) + (if 2 < m \<and> is_leap y then 1 else 0)"

definition ymd2ord :: "int \<Rightarrow> int \<Rightarrow> int \<Rightarrow> date" where
  "ymd2ord y m d = days_before_year y + days_before_month y m + d"

text \<open>The constructor \<open>date(year, month, day)\<close> raises \<open>ValueError\<close> outside the calendar.\<close>

definition py_date :: "int \<Rightarrow> int \<Rightarrow> int \<Rightarrow> error + date" where
  "py_date y m d =
     (if 1 \<le> y \<and> y \<le> 9999 \<and> 1 \<le> m \<and> m \<le> 12 \<and> 1 \<le> d \<and> d \<le> days_in_month y m
      then Inr (ymd2ord y m d) else Inl ValueError)"

text \<open>\<open>d - timedelta(days=n)\<close> raises \<open>OverflowError\<close> when the result is not a date.\<close>

definition date_minus_days :: "date \<Rightarrow> int \<Rightarrow> error + date" where
  "date_minus_days d n =
     (let ordinal = d - n
      in if 0 < ordinal \<and> ordinal \<le> max_ordinal then Inr ordinal else Inl OverflowError)"

text \<open>
  A \<open>datetime\<close> is a date and a time of day, here in microseconds since midnight;
  \<open>.date()\<close> keeps the date.
\<close>

datatype datetime = Datetime date int

fun date_of :: "datetime \<Rightarrow> date" where
  "date_of (Datetime d t) = d"

section \<open>\<open>datetime.strptime\<close>\<close>

text \<open>
  \<open>strptime\<close> turns the format into a regular expression, matches it at the start of the
  text ignoring case, and raises \<open>ValueError\<close> when there is no match, when text remains
  after the match, or when the fields are not a date. The model has the five directives the
  code uses, in the C locale. A character class is a predicate on characters; a directive
  is a list of alternatives, each a sequence of classes, tried in order.
\<close>

definition one_of :: "string \<Rightarrow> char \<Rightarrow> bool" where
  "one_of cs c = (c \<in> set cs)"

text \<open>A word in lower case, matched ignoring case.\<close>

definition ignoring_case :: "string \<Rightarrow> (char \<Rightarrow> bool) list" where
  "ignoring_case w = map (\<lambda>l c. lower_char c = l) w"

definition month_names :: "string list" where
  "month_names =
     [''january'', ''february'', ''march'', ''april'', ''may'', ''june'', ''july'', ''august'',
      ''september'', ''october'', ''november'', ''december'']"

definition month_abbreviations :: "string list" where
  "month_abbreviations = map (take 3) month_names"

text \<open>The names of a directive's alternation are sorted longest first, as \<open>strptime\<close> does.\<close>

definition longest_first :: "string list \<Rightarrow> string list" where
  "longest_first ws = sort_key (\<lambda>w. - int (length w)) ws"

definition nonzero_digits :: string where
  "nonzero_digits = ''123456789''"

definition directive_alternatives :: "char \<Rightarrow> (char \<Rightarrow> bool) list list" where
  "directive_alternatives d =
     (if d = CHR ''d'' then
        [[one_of ''3'', one_of ''01''], [one_of ''12'', is_digit],
         [one_of ''0'', one_of nonzero_digits], [one_of nonzero_digits],
         [one_of '' '', one_of nonzero_digits]]
      else if d = CHR ''m'' then
        [[one_of ''1'', one_of ''012''], [one_of ''0'', one_of nonzero_digits],
         [one_of nonzero_digits]]
      else if d = CHR ''Y'' then [[is_digit, is_digit, is_digit, is_digit]]
      else if d = CHR ''B'' then map ignoring_case (longest_first month_names)
      else if d = CHR ''b'' then map ignoring_case (longest_first month_abbreviations)
      else [])"

text \<open>A sequence of classes at the start of the text: the matched text and the rest.\<close>

fun match_classes :: "(char \<Rightarrow> bool) list \<Rightarrow> string \<Rightarrow> (string \<times> string) option" where
  "match_classes [] s = Some ([], s)"
| "match_classes (p # ps) [] = None"
| "match_classes (p # ps) (c # cs) =
     (if p c
      then (case match_classes ps cs of None \<Rightarrow> None | Some (m, r) \<Rightarrow> Some (c # m, r))
      else None)"

text \<open>
  The items of a compiled format: a directive, a run of whitespace (compiled to \<open>\s+\<close>),
  or a literal character.
\<close>

datatype format_item = Directive char | Spaces | Literal char

function compile_format :: "string \<Rightarrow> format_item list" where
  "compile_format [] = []"
| "compile_format (c # cs) =
     (if c = CHR ''%'' then
        (case cs of [] \<Rightarrow> [] | d # rest \<Rightarrow> Directive d # compile_format rest)
      else if is_space c then Spaces # compile_format (dropWhile is_space cs)
      else Literal c # compile_format cs)"
  by pat_completeness auto
termination
proof (relation "measure length")
  show "wf (measure length)" by simp
next
  fix c :: char and cs :: string and d :: char and rest :: string
  assume "cs = d # rest"
  then show "(rest, c # cs) \<in> measure length" by simp
next
  fix c :: char and cs :: string
  have "length (dropWhile is_space cs) \<le> length cs"
    by (rule length_dropWhile_le)
  then show "(dropWhile is_space cs, c # cs) \<in> measure length" by simp
next
  fix c :: char and cs :: string
  show "(cs, c # cs) \<in> measure length" by simp
qed

text \<open>
  The ways one item matches at the start of the text, in the order a backtracking matcher
  tries them: each is the group the item captures, if any, and the rest of the text.
  \<open>\s+\<close> is greedy: the longest run first.
\<close>

definition match_item :: "format_item \<Rightarrow> string \<Rightarrow> ((char \<times> string) list \<times> string) list" where
  "match_item item s =
     (case item of
        Directive d \<Rightarrow>
          List.map_filter
            (\<lambda>alt. case match_classes alt s of
                     None \<Rightarrow> None
                   | Some (m, r) \<Rightarrow> Some ([(d, m)], r))
            (directive_alternatives d)
      | Spaces \<Rightarrow>
          map (\<lambda>k. ([], drop k s)) (rev [1 ..< Suc (length (takeWhile is_space s))])
      | Literal l \<Rightarrow>
          (case s of
             [] \<Rightarrow> []
           | c # cs \<Rightarrow> if lower_char c = lower_char l then [([], cs)] else []))"

fun match_format :: "format_item list \<Rightarrow> string \<Rightarrow> ((char \<times> string) list \<times> string) list" where
  "match_format [] s = [([], s)]"
| "match_format (item # items) s =
     concat (map (\<lambda>(groups, r). map (\<lambda>(groups', r'). (groups @ groups', r')) (match_format items r))
                 (match_item item s))"

text \<open>
  The fields of the match: \<open>int()\<close> of the year, month and day groups, or the position of a
  month name; a field without a group has its default.
\<close>

definition index_of :: "string \<Rightarrow> string list \<Rightarrow> int" where
  "index_of w ws = int (length (takeWhile (\<lambda>x. x \<noteq> w) ws))"

definition field_year :: "(char \<times> string) list \<Rightarrow> int" where
  "field_year groups =
     (case map_of groups CHR ''Y'' of Some t \<Rightarrow> int_of_digits t | None \<Rightarrow> 1900)"

definition field_month :: "(char \<times> string) list \<Rightarrow> int" where
  "field_month groups =
     (case map_of groups CHR ''m'' of
        Some t \<Rightarrow> int_of_digits t
      | None \<Rightarrow>
          (case map_of groups CHR ''B'' of
             Some t \<Rightarrow> index_of (lower t) month_names + 1
           | None \<Rightarrow>
               (case map_of groups CHR ''b'' of
                  Some t \<Rightarrow> index_of (lower t) month_abbreviations + 1
                | None \<Rightarrow> 1)))"

definition field_day :: "(char \<times> string) list \<Rightarrow> int" where
  "field_day groups =
     (case map_of groups CHR ''d'' of Some t \<Rightarrow> int_of_digits (strip t) | None \<Rightarrow> 1)"

text \<open>\<open>datetime.strptime(data_string, format).date()\<close>.\<close>

definition strptime_date :: "string \<Rightarrow> string \<Rightarrow> error + date" where
  "strptime_date data_string fmt =
     (case match_format (compile_format fmt) data_string of
        [] \<Rightarrow> Inl ValueError
      | (groups, rest) # _ \<Rightarrow>
          if rest \<noteq> [] then Inl ValueError
          else py_date (field_year groups) (field_month groups) (field_day groups))"

section \<open>The alert classifier\<close>

text \<open>The formats \<open>calculate_alert_status\<close> tries, in the order of the source.\<close>

definition date_formats :: "string list" where
  "date_formats =
     [''%Y-%m-%d'', ''%d/%m/%Y'', ''%m/%d/%Y'', ''%d-%m-%Y'',
      ''%Y/%m/%d'', ''%m-%d-%Y'', ''%d.%m.%Y'', ''%Y.%m.%d'',
      ''%B %d, %Y'', ''%d %B %Y'', ''%b %d, %Y'', ''%d %b %Y'']"

text \<open>
  The loop over the formats: the first format that parses ends it; a \<open>ValueError\<close> moves on
  to the next format; any other exception leaves the loop. \<open>None\<close> is the value of
  \<open>expiry_date\<close> when no format parsed.
\<close>

fun parse_expiry :: "string \<Rightarrow> string list \<Rightarrow> error + date option" where
  "parse_expiry date_str [] = Inr None"
| "parse_expiry date_str (fmt # fmts) =
     (case strptime_date date_str fmt of
        Inr expiry_date \<Rightarrow> Inr (Some expiry_date)
      | Inl e \<Rightarrow> if e = ValueError then parse_expiry date_str fmts else Inl e)"

text \<open>
  The chain of comparisons, with the branch taken kept apart from the string it returns:
  the last branch is the final \<open>return ""\<close> after the chain.
\<close>

datatype alert_branch =
  No_Alert | Three_Months | Two_Months | One_Month | Expired | Fall_Through

definition classify :: "date \<Rightarrow> date \<Rightarrow> date \<Rightarrow> date \<Rightarrow> date \<Rightarrow> alert_branch" where
  "classify today three_months_before two_months_before one_month_before expiry_date =
     (if today < three_months_before then No_Alert
      else if three_months_before \<le> today \<and> today < two_months_before then Three_Months
      else if two_months_before \<le> today \<and> today < one_month_before then Two_Months
      else if one_month_before \<le> today \<and> today < expiry_date then One_Month
      else if today \<ge> expiry_date then Expired
      else Fall_Through)"

fun tier_of :: "alert_branch \<Rightarrow> string" where
  "tier_of No_Alert = []"
| "tier_of Three_Months = ''three_months''"
| "tier_of Two_Months = ''two_months''"
| "tier_of One_Month = ''one_month''"
| "tier_of Expired = ''expired''"
| "tier_of Fall_Through = []"

text \<open>
  The body of the \<open>try\<close> block. The function has no parameter for the current day: it reads
  \<open>datetime.today()\<close>, which is the argument \<open>now\<close> here.
\<close>

definition alert_status_body :: "datetime \<Rightarrow> pyval \<Rightarrow> error + string" where
  "alert_status_body now agreement_expiry_date =
     (case py_strip agreement_expiry_date of
        Inl e \<Rightarrow> Inl e
      | Inr date_str \<Rightarrow>
          (case parse_expiry date_str date_formats of
             Inl e \<Rightarrow> Inl e
           | Inr None \<Rightarrow> Inr []
           | Inr (Some expiry_date) \<Rightarrow>
               (let today = date_of now
                in case date_minus_days expiry_date 90 of
                     Inl e \<Rightarrow> Inl e
                   | Inr three_months_before \<Rightarrow>
                       (case date_minus_days expiry_date 60 of
                          Inl e \<Rightarrow> Inl e
                        | Inr two_months_before \<Rightarrow>
                            (case date_minus_days expiry_date 30 of
                               Inl e \<Rightarrow> Inl e
                             | Inr one_month_before \<Rightarrow>
                                 Inr (tier_of (classify today three_months_before
                                        two_months_before one_month_before expiry_date)))))))"

text \<open>
  The whole function: the guard, which is outside the \<open>try\<close> block, then the body, whose
  every exception is caught and turned into the empty string.
\<close>

definition calculate_alert_status :: "datetime \<Rightarrow> pyval \<Rightarrow> error + string" where
  "calculate_alert_status now agreement_expiry_date =
     (if \<not> truthy agreement_expiry_date then Inr []
      else case py_strip agreement_expiry_date of
        Inl e \<Rightarrow> Inl e
      | Inr stripped \<Rightarrow>
          if stripped = [] then Inr []
          else (case alert_status_body now agreement_expiry_date of
                  Inl e \<Rightarrow> Inr []
                | Inr tier \<Rightarrow> Inr tier))"

section \<open>Evaluation\<close>

text \<open>The equations that evaluate the model on a concrete input.\<close>

lemmas char_defs = is_digit_def digits_def is_space_def whitespace_def

lemmas float_defs = py_float_def int_of_digits_def digit_val_def digits_def round_double_def
  ilog2_def
  bit_length.simps pow2_def round_half_even_def Let_def

lemmas str_defs = str_int_def dec_digits.simps digit_char_def

section \<open>Comma-grouped amounts\<close>

text \<open>
  Claim C10. The pattern \<open>\d+\.?\d*\<close> does not match a comma, so \<open>"1,200"\<close> holds the two
  numbers \<open>"1"\<close> and \<open>"200"\<close>: \<open>normalize_rent_amount\<close> returns the first, \<open>"1"\<close>, and
  \<open>normalize_maintenance_amount\<close> returns their sum, \<open>"201"\<close>; neither returns \<open>"1200"\<close>.
\<close>

theorem comma_splits_amounts:
  "findall_decimal ''1,200'' = [''1'', ''200''] \<and>
   normalize_rent_amount (PyStr ''1,200'') = Inr ''1'' \<and>
   normalize_maintenance_amount (PyStr ''1,200'') = Inr ''201''"
  by (simp add: normalize_rent_amount_def normalize_maintenance_amount_def strip_def
      match_decimal_def char_defs float_defs render_total_def str_defs)

theorem comma_splits_amounts_witness:
  "normalize_rent_amount (PyStr ''1,200'') \<noteq> Inr ''1200'' \<and>
   normalize_maintenance_amount (PyStr ''1,200'') \<noteq> Inr ''1200''"
  using comma_splits_amounts by simp

section \<open>Properties of the alert classifier\<close>

subsection \<open>The range of dates\<close>

lemma days_before_year_bounds:
  assumes "1 \<le> y" and "y \<le> 9998"
  shows "0 \<le> days_before_year y \<and> days_before_year y \<le> 3651330"
proof -
  define x where "x = y - 1"
  have a: "4 * (x div 4) \<le> x" "x - 3 \<le> 4 * (x div 4)" by simp_all
  have b: "100 * (x div 100) \<le> x" "x - 99 \<le> 100 * (x div 100)" by simp_all
  have c: "400 * (x div 400) \<le> x" "0 \<le> x div 400" using assms by (simp_all add: x_def)
  have "0 \<le> x" "x \<le> 9997" using assms by (simp_all add: x_def)
  then show ?thesis
    unfolding days_before_year_def x_def [symmetric] using a b c by linarith
qed

lemma days_in_year_bound:
  assumes "1 \<le> m" and "m \<le> 12"
  shows "0 \<le> days_before_month y m \<and>
         days_before_month y m + days_in_month y m \<le> (if is_leap y then 366 else 365)"
proof -
  from assms have "m \<in> {1, 2, 3, 4, 5, 6, 7, 8, 9, 10, 11, 12}" by simp presburger
  then show ?thesis
    by (auto simp add: days_before_month_def days_in_month_def month_lengths_def)
qed

text \<open>A date that the constructor accepts lies between day 1 and the last day.\<close>

lemma py_date_range:
  assumes "py_date y m d = Inr T"
  shows "1 \<le> T \<and> T \<le> max_ordinal"
proof -
  from assms
  have r: "1 \<le> y" "y \<le> 9999" "1 \<le> m" "m \<le> 12" "1 \<le> d" "d \<le> days_in_month y m"
    and T: "T = ymd2ord y m d"
    by (auto simp add: py_date_def split: if_splits)
  note bm = days_in_year_bound [OF r(3,4), of y]
  show ?thesis
  proof (cases "y = 9999")
    case True
    have "days_before_year 9999 = 3651694" "\<not> is_leap 9999"
      by (simp_all add: days_before_year_def is_leap_def)
    then show ?thesis using bm r T True by (simp add: ymd2ord_def max_ordinal_def)
  next
    case False
    then have "y \<le> 9998" using r by simp
    from days_before_year_bounds [OF r(1) this] show ?thesis
      using bm r T by (simp add: ymd2ord_def max_ordinal_def split: if_splits)
  qed
qed

lemma strptime_date_range:
  assumes "strptime_date s fmt = Inr T"
  shows "1 \<le> T \<and> T \<le> max_ordinal"
  using assms py_date_range
  by (auto simp add: strptime_date_def split: list.splits if_splits)

lemma parse_expiry_range:
  assumes "parse_expiry s fmts = Inr (Some T)"
  shows "1 \<le> T \<and> T \<le> max_ordinal"
  using assms
proof (induction fmts)
  case Nil
  then show ?case by simp
next
  case (Cons fmt fmts)
  show ?case
  proof (cases "strptime_date s fmt")
    case (Inl e)
    with Cons show ?thesis by (simp split: if_splits)
  next
    case (Inr d)
    with Cons.prems have "d = T" by simp
    with Inr strptime_date_range show ?thesis by simp
  qed
qed

subsection \<open>The classifier on a string\<close>

lemma strip_Nil: "strip [] = []"
  by (simp add: strip_def)

lemma tier_of_range:
  "tier_of b \<in> set [[], ''three_months'', ''two_months'', ''one_month'', ''expired'']"
  by (cases b) simp_all

text \<open>
  On a string the guard and the \<open>try\<close> block come to this: the empty tier unless the
  stripped text parses to a date \<open>T\<close> after day 90, and then the branch of the chain.
\<close>

lemma alert_status_of_text:
  "calculate_alert_status now (PyStr s) =
     (if strip s = [] then Inr []
      else case parse_expiry (strip s) date_formats of
             Inl e \<Rightarrow> Inr []
           | Inr None \<Rightarrow> Inr []
           | Inr (Some T) \<Rightarrow>
               if 90 < T \<and> T - 30 \<le> max_ordinal
               then Inr (tier_of (classify (date_of now) (T - 90) (T - 60) (T - 30) T))
               else Inr [])"
  by (auto simp add: calculate_alert_status_def alert_status_body_def date_minus_days_def
      strip_Nil Let_def split: sum.splits option.splits)

lemmas date_defs = py_date_def ymd2ord_def days_before_year_def days_before_month_def
  days_in_month_def is_leap_def month_lengths_def max_ordinal_def

lemmas strptime_defs = date_formats_def strptime_date_def match_item_def
  directive_alternatives_def one_of_def nonzero_digits_def ignoring_case_def month_names_def
  month_abbreviations_def longest_first_def field_year_def field_month_def field_day_def
  index_of_def List.map_filter_def lower_def lower_char_def upper_chars_def lower_chars_def
  strip_def is_digit_def is_space_def whitespace_def int_of_digits_def digit_val_def digits_def

lemma parse_empty: "parse_expiry [] date_formats = Inr None"
  by (simp add: strptime_defs)

lemma parse_1_June_2025: "parse_expiry ''2025-06-01'' date_formats = Inr (Some 739403)"
  by (simp add: strptime_defs date_defs)

lemma parse_1_March_2025:
  "parse_expiry ''2025-03-01'' date_formats = Inr (Some 739311)"
  "parse_expiry ''01/03/2025'' date_formats = Inr (Some 739311)"
  "parse_expiry ''March 1, 2025'' date_formats = Inr (Some 739311)"
  by (simp_all add: strptime_defs date_defs)

lemma parse_3_January_2025: "parse_expiry ''03/01/2025'' date_formats = Inr (Some 739254)"
  by (simp add: strptime_defs date_defs)

lemma parse_year_one: "parse_expiry ''0001-01-01'' date_formats = Inr (Some 1)"
  by (simp add: strptime_defs date_defs)

lemma ordinals_2025:
  "ymd2ord 2025 1 3 = 739254" "ymd2ord 2025 1 10 = 739261" "ymd2ord 2025 3 1 = 739311"
  "ymd2ord 2025 3 2 = 739312" "ymd2ord 2025 3 3 = 739313" "ymd2ord 2025 5 31 = 739402"
  "ymd2ord 2025 6 1 = 739403"
  by (simp_all add: date_defs)

subsection \<open>The tiers\<close>

lemma parse_year_one_boundary:
  "parse_expiry ''0001-03-31'' date_formats = Inr (Some 90)"
  "parse_expiry ''0001-04-01'' date_formats = Inr (Some 91)"
  by (simp_all add: strptime_defs date_defs)

text \<open>
  Claim C1, amended. When the stripped text parses to a date \<open>T\<close> on or after 0001-04-01
  (day 91, the first date with \<open>T - 90\<close> days a date), the result is the tier of the first of
  the five rules that holds: \<open>today < T - 90\<close> gives the empty tier,
  \<open>T - 90 \<le> today < T - 60\<close> gives \<open>"three_months"\<close>, \<open>T - 60 \<le> today < T - 30\<close> gives
  \<open>"two_months"\<close>, \<open>T - 30 \<le> today < T\<close> gives \<open>"one_month"\<close> and \<open>T \<le> today\<close> gives
  \<open>"expired"\<close>; the thresholds are exactly 90, 60 and 30 days before \<open>T\<close>. When \<open>T\<close> is
  before 0001-04-01 (day 90 or earlier), the result is the empty tier on every day.
\<close>

theorem alert_tiers:
  assumes "parse_expiry (strip s) date_formats = Inr (Some T)"
  shows "calculate_alert_status now (PyStr s) =
           Inr (if T \<le> 90 then []
                else if date_of now < T - 90 then []
                else if date_of now < T - 60 then ''three_months''
                else if date_of now < T - 30 then ''two_months''
                else if date_of now < T then ''one_month''
                else ''expired'')"
proof -
  from assms have "strip s \<noteq> []"
    using parse_empty by auto
  moreover from assms have "T \<le> max_ordinal"
    using parse_expiry_range by blast
  ultimately show ?thesis
    using assms by (simp add: alert_status_of_text classify_def)
qed

text \<open>
  The boundaries of the specification, with \<open>T\<close> = 2025-06-01: 2025-03-03 is exactly
  \<open>T - 90\<close> days. And the two dates around day 90 of year 1, on 2025-06-01.
\<close>

theorem alert_tiers_witness:
  "calculate_alert_status (Datetime (ymd2ord 2025 3 3) 0) (PyStr ''2025-06-01'') = Inr ''three_months'' \<and>
   calculate_alert_status (Datetime (ymd2ord 2025 3 2) 0) (PyStr ''2025-06-01'') = Inr [] \<and>
   calculate_alert_status (Datetime (ymd2ord 2025 5 31) 0) (PyStr ''2025-06-01'') = Inr ''one_month'' \<and>
   calculate_alert_status (Datetime (ymd2ord 2025 6 1) 0) (PyStr ''2025-06-01'') = Inr ''expired'' \<and>
   calculate_alert_status (Datetime (ymd2ord 2025 6 1) 0) (PyStr ''0001-03-31'') = Inr [] \<and>
   calculate_alert_status (Datetime (ymd2ord 2025 6 1) 0) (PyStr ''0001-04-01'') = Inr ''expired''"
proof -
  have stripped: "strip ''2025-06-01'' = ''2025-06-01''" "strip ''0001-03-31'' = ''0001-03-31''"
    "strip ''0001-04-01'' = ''0001-04-01''"
    by (simp_all add: strip_def char_defs)
  have parsed: "parse_expiry (strip ''2025-06-01'') date_formats = Inr (Some 739403)"
    unfolding stripped by (rule parse_1_June_2025)
  have day_90: "parse_expiry (strip ''0001-03-31'') date_formats = Inr (Some 90)"
    unfolding stripped by (rule parse_year_one_boundary)
  have day_91: "parse_expiry (strip ''0001-04-01'') date_formats = Inr (Some 91)"
    unfolding stripped by (rule parse_year_one_boundary)
  show ?thesis
    using alert_tiers [OF parsed, of "Datetime (ymd2ord 2025 3 3) 0"]
      alert_tiers [OF parsed, of "Datetime (ymd2ord 2025 3 2) 0"]
      alert_tiers [OF parsed, of "Datetime (ymd2ord 2025 5 31) 0"]
      alert_tiers [OF parsed, of "Datetime (ymd2ord 2025 6 1) 0"]
      alert_tiers [OF day_90, of "Datetime (ymd2ord 2025 6 1) 0"]
      alert_tiers [OF day_91, of "Datetime (ymd2ord 2025 6 1) 0"]
    by (simp add: ordinals_2025)
qed

text \<open>
  Claim C1 as stated fails for a date in the first 90 days of year 1: \<open>"0001-01-01"\<close> parses
  to day 1, every \<open>today\<close> is on or after it, and the result is the empty tier, not
  \<open>"expired"\<close>: \<open>expiry_date - timedelta(days=90)\<close> raises \<open>OverflowError\<close>, which the
  \<open>except Exception\<close> clause turns into the empty string.
\<close>

theorem alert_tiers_counterexample:
  "parse_expiry (strip ''0001-01-01'') date_formats = Inr (Some (ymd2ord 1 1 1)) \<and>
   ymd2ord 1 1 1 \<le> ymd2ord 2025 6 1 \<and>
   calculate_alert_status (Datetime (ymd2ord 2025 6 1) 0) (PyStr ''0001-01-01'') = Inr [] \<and>
   calculate_alert_status (Datetime (ymd2ord 2025 6 1) 0) (PyStr ''0001-01-01'') \<noteq> Inr ''expired''"
proof -
  have stripped: "strip ''0001-01-01'' = ''0001-01-01''"
    by (simp add: strip_def char_defs)
  have day: "ymd2ord 1 1 1 = 1"
    by (simp add: date_defs)
  show ?thesis
    by (simp add: alert_status_of_text stripped parse_year_one day ordinals_2025)
qed

subsection \<open>The partition\<close>

text \<open>
  Claim C2. For every string and every \<open>today\<close> the classifier returns a value, one of
  \<open>""\<close>, \<open>"three_months"\<close>, \<open>"two_months"\<close>, \<open>"one_month"\<close> and \<open>"expired"\<close>. For a date \<open>T\<close>
  exactly one of the five rules holds of \<open>today\<close>, so the chain never reaches the final
  \<open>return ""\<close> after the five rules.
\<close>

theorem alert_partition:
  "(\<exists>tier. calculate_alert_status now (PyStr s) = Inr tier \<and>
      tier \<in> set [[], ''three_months'', ''two_months'', ''one_month'', ''expired'']) \<and>
   length (filter id
     [today < T - 90, T - 90 \<le> today \<and> today < T - 60, T - 60 \<le> today \<and> today < T - 30,
      T - 30 \<le> today \<and> today < T, T \<le> today]) = 1 \<and>
   classify today (T - 90) (T - 60) (T - 30) T \<noteq> Fall_Through"
proof -
  have "\<exists>tier. calculate_alert_status now (PyStr s) = Inr tier \<and>
      tier \<in> set [[], ''three_months'', ''two_months'', ''one_month'', ''expired'']"
    using tier_of_range by (simp add: alert_status_of_text split: sum.splits option.splits)
  moreover have "length (filter id
     [today < T - 90, T - 90 \<le> today \<and> today < T - 60, T - 60 \<le> today \<and> today < T - 30,
      T - 30 \<le> today \<and> today < T, T \<le> today]) = 1"
    by auto
  moreover have "classify today (T - 90) (T - 60) (T - 30) T \<noteq> Fall_Through"
    by (simp add: classify_def)
  ultimately show ?thesis by blast
qed

text \<open>The partition on 2025-03-10 (day 739320) for the expiry date 2025-06-01 (day 739403): the
  second rule alone.\<close>

theorem alert_partition_witness:
  "(\<exists>tier. calculate_alert_status (Datetime 739320 0) (PyStr ''2025-06-01'') = Inr tier) \<and>
   filter id
     [(739320 :: int) < 739403 - 90,
      (739403 :: int) - 90 \<le> 739320 \<and> (739320 :: int) < 739403 - 60,
      (739403 :: int) - 60 \<le> 739320 \<and> (739320 :: int) < 739403 - 30,
      (739403 :: int) - 30 \<le> 739320 \<and> (739320 :: int) < 739403,
      (739403 :: int) \<le> 739320] = [True] \<and>
   classify 739320 (739403 - 90) (739403 - 60) (739403 - 30) 739403 = Three_Months"
  using alert_partition [of "Datetime 739320 0" "''2025-06-01''" 739320 739403]
  by (auto simp add: classify_def)

subsection \<open>The inputs of the classifier\<close>




subsection \<open>The formats of a date\<close>

text \<open>
  Claim C8, amended. For a fixed \<open>today\<close>, two texts that the format list reads as the same
  date give the same tier. A text is read by the first format of the list that accepts it.
\<close>

theorem same_date_same_tier:
  assumes "parse_expiry (strip s) date_formats = Inr (Some T)"
      and "parse_expiry (strip s') date_formats = Inr (Some T)"
  shows "calculate_alert_status now (PyStr s) = calculate_alert_status now (PyStr s')"
proof -
  from assms have "strip s \<noteq> []" and "strip s' \<noteq> []"
    using parse_empty by auto
  then show ?thesis
    using assms by (simp add: alert_status_of_text)
qed

text \<open>
  The three texts of the specification are all read as 2025-03-01 and give the same tier on
  every day.
\<close>

theorem same_date_same_tier_witness:
  "\<forall>now. calculate_alert_status now (PyStr ''01/03/2025'') =
           calculate_alert_status now (PyStr ''2025-03-01'') \<and>
         calculate_alert_status now (PyStr ''March 1, 2025'') =
           calculate_alert_status now (PyStr ''2025-03-01'')"
proof -
  have stripped: "strip ''2025-03-01'' = ''2025-03-01''" "strip ''01/03/2025'' = ''01/03/2025''"
    "strip ''March 1, 2025'' = ''March 1, 2025''"
    by (simp_all add: strip_def char_defs)
  have parsed:
    "parse_expiry (strip ''2025-03-01'') date_formats = Inr (Some 739311)"
    "parse_expiry (strip ''01/03/2025'') date_formats = Inr (Some 739311)"
    "parse_expiry (strip ''March 1, 2025'') date_formats = Inr (Some 739311)"
    unfolding stripped by (rule parse_1_March_2025)+
  show ?thesis
    using same_date_same_tier [OF parsed(2) parsed(1)]
      same_date_same_tier [OF parsed(3) parsed(1)]
    by simp
qed

text \<open>
  Claim C8 as stated fails for the same calendar date written month first: \<open>"03/01/2025"\<close>
  is 2025-03-01 in the accepted format \<open>%m/%d/%Y\<close>, but the earlier format \<open>%d/%m/%Y\<close>
  accepts it as 2025-01-03. On 2025-01-10 that date has passed, and 2025-03-01 is between
  60 and 30 days ahead.
\<close>

theorem same_date_same_tier_counterexample:
  "strptime_date ''03/01/2025'' ''%m/%d/%Y'' = strptime_date ''2025-03-01'' ''%Y-%m-%d'' \<and>
   calculate_alert_status (Datetime (ymd2ord 2025 1 10) 0) (PyStr ''03/01/2025'') = Inr ''expired'' \<and>
   calculate_alert_status (Datetime (ymd2ord 2025 1 10) 0) (PyStr ''2025-03-01'') = Inr ''two_months''"
proof -
  have stripped: "strip ''2025-03-01'' = ''2025-03-01''" "strip ''03/01/2025'' = ''03/01/2025''"
    by (simp_all add: strip_def char_defs)
  have "strptime_date ''03/01/2025'' ''%m/%d/%Y'' = Inr 739311"
    "strptime_date ''2025-03-01'' ''%Y-%m-%d'' = Inr 739311"
    by (simp_all add: strptime_defs date_defs)
  then show ?thesis
    by (simp add: alert_status_of_text stripped parse_1_March_2025 parse_3_January_2025
        ordinals_2025 max_ordinal_def classify_def)
qed

section \<open>Values that are not strings\<close>















end
